theory Spec2Isabelle
  imports Main
begin

section \<open>Python values shared by the model\<close>

text \<open>
  Exceptions of the Python run are values. \<open>sys.exit()\<close> raises \<open>SystemExit\<close> with the
  status it was given (\<open>None\<close> when called without argument). In Python 3
  \<open>FileNotFoundError\<close> is a subclass of \<open>OSError\<close>, and \<open>IOError\<close> is an alias of
  \<open>OSError\<close>: a handler \<open>except IOError\<close> catches both.
\<close>

datatype exn =
    FileNotFoundError string
  | IOError string
  | KeyError string
  | TypeError string
  | NameError string
  | SystemExit "int option"
  | OtherError string

fun is_FileNotFoundError :: "exn \<Rightarrow> bool" where
  "is_FileNotFoundError (FileNotFoundError m) = True"
| "is_FileNotFoundError e = False"

fun is_IOError :: "exn \<Rightarrow> bool" where
  "is_IOError (FileNotFoundError m) = True"
| "is_IOError (IOError m) = True"
| "is_IOError e = False"

text \<open>\<open>str(e)\<close>, the text \<open>print(e)\<close> shows.\<close>

fun exn_str :: "exn \<Rightarrow> string" where
  "exn_str (FileNotFoundError m) = m"
| "exn_str (IOError m) = m"
| "exn_str (KeyError m) = m"
| "exn_str (TypeError m) = m"
| "exn_str (NameError m) = m"
| "exn_str (SystemExit c) = []"
| "exn_str (OtherError m) = m"

text \<open>
  What the run does to the outside, in order: lines printed to standard output
  (\<open>print\<close> and \<open>click.echo\<close>), files opened for writing and written, the scratch
  directory made and removed, and the processes and queues of the pipeline.
\<close>

datatype event =
    Print string
  | OpenW string
  | FileWrite string string
  | MkTemp string
  | RmTree string
  | StartWorker nat
  | StartPrinter string
  | RunAnnotator
  | WorkPutNone
  | WorkJoin
  | ResultsPutNone
  | PrinterJoin
  | SortFile string

text \<open>
  A computation yields the events it produced and either the exception that ended it
  or its value. Sequencing keeps the events produced before an exception.
\<close>

type_synonym 'a io = "event list \<times> (exn + 'a)"

definition emit :: "event list \<Rightarrow> unit io" where
  "emit t = (t, Inr ())"

definition raise :: "exn \<Rightarrow> 'a io" where
  "raise e = ([], Inl e)"

definition bind_io :: "'a io \<Rightarrow> ('a \<Rightarrow> 'b io) \<Rightarrow> 'b io" where
  "bind_io m f =
     (case m of
        (t, Inl e) \<Rightarrow> (t, Inl e)
      | (t, Inr x) \<Rightarrow> (case f x of (t', r) \<Rightarrow> (t @ t', r)))"

definition when_io :: "bool \<Rightarrow> unit io \<Rightarrow> unit io" where
  "when_io b m = (if b then m else emit [])"

text \<open>
  The exit status of the process: 0 after a normal return and after \<open>sys.exit()\<close>
  without argument, the given status after \<open>sys.exit(c)\<close>, 1 after an uncaught
  exception.
\<close>

fun exit_status :: "exn + 'a \<Rightarrow> int" where
  "exit_status (Inr x) = 0"
| "exit_status (Inl (SystemExit None)) = 0"
| "exit_status (Inl (SystemExit (Some c))) = c"
| "exit_status (Inl e) = 1"

text \<open>Truth value of an optional path: \<open>None\<close> and the empty string are false.\<close>

fun truthy :: "string option \<Rightarrow> bool" where
  "truthy None = False"
| "truthy (Some s) = (s \<noteq> [])"

text \<open>\<open>sep.join(xs)\<close>.\<close>

fun join :: "string \<Rightarrow> string list \<Rightarrow> string" where
  "join sep [] = []"
| "join sep [x] = x"
| "join sep (x # y # ys) = x @ sep @ join sep (y # ys)"

text \<open>\<open>os.path.join(a, b)\<close> on a POSIX system.\<close>

definition path_join :: "string \<Rightarrow> string \<Rightarrow> string" where
  "path_join a b =
     (if b \<noteq> [] \<and> hd b = CHR ''/'' then b
      else if a = [] \<or> last a = CHR ''/'' then a @ b
      else a @ ''/'' @ b)"

text \<open>\<open>str(n)\<close> for a non-negative integer.\<close>

definition digit_char :: "nat \<Rightarrow> char" where
  "digit_char d = char_of (48 + d)"

fun str_nat :: "nat \<Rightarrow> string" where
  "str_nat n = (if n < 10 then [digit_char n] else str_nat (n div 10) @ [digit_char (n mod 10)])"

declare str_nat.simps [simp del]

text \<open>
  A call that passes \<open>given\<close> positional arguments to a function declared with
  \<open>accepted\<close> positional parameters (and no \<open>*args\<close>) raises \<open>TypeError\<close> before the
  body runs when \<open>given\<close> exceeds \<open>accepted\<close>.
\<close>

definition call_positional :: "string \<Rightarrow> nat \<Rightarrow> nat \<Rightarrow> 'a io \<Rightarrow> 'a io" where
  "call_positional name accepted given body =
     (if given \<le> accepted then body
      else raise (TypeError (name @ ''() takes '' @ str_nat accepted @
             '' positional argument but '' @ str_nat given @ '' were given'')))"

text \<open>
  A Python dictionary, kept in insertion order. \<open>popitem()\<close> removes and returns the
  pair inserted last, and raises \<open>KeyError\<close> on an empty dictionary.
\<close>

definition popitem :: "('k \<times> 'v) list \<Rightarrow> exn + (('k \<times> 'v) \<times> ('k \<times> 'v) list)" where
  "popitem d =
     (if d = [] then Inl (KeyError ''popitem(): dictionary is empty'')
      else Inr (last d, butlast d))"

section \<open>Pedigree data\<close>

datatype sex = male | female | unknown_sex

datatype phenotype = affected | unaffected | unknown_phenotype

record individual =
  ind_id :: string
  family_id :: string
  father_id :: string
  mother_id :: string
  sex :: sex
  phenotype :: phenotype

record family =
  fam_id :: string
  individuals :: "(string \<times> individual) list"


section \<open>The inheritance-model classifier\<close>

text \<open>
  The classifier (\<open>genmod.models.genetic_models.check_genetic_models\<close>) and the
  genotype class are not among the source files; only the test that calls them is. The
  definitions of this section follow the specification's data model and its rules for
  the per-variant simple models.
\<close>

text \<open>Modelled from the spec: the genotype of one individual at one variant, one of
  \<open>{hom_ref, het, hom_alt, missing}\<close> (the class \<open>genmod.variants.genotype\<close> is
  missing). In the scenarios' notation \<open>0/0\<close> is \<open>hom_ref\<close>, \<open>0/1\<close> is \<open>het\<close>,
  \<open>1/1\<close> is \<open>hom_alt\<close> and \<open>./.\<close> is \<open>missing\<close>.\<close>

datatype genotype = hom_ref | het | hom_alt | missing

text \<open>Modelled from the spec: the variant record
  \<open>{chrom, pos, ref, alt, id, genotypes: mapping ind_id \<rightarrow> Genotype}\<close>.\<close>

record variant =
  chrom :: string
  pos :: int
  ref :: string
  alt :: string
  var_id :: string
  genotypes :: "(string \<times> genotype) list"

text \<open>Modelled from the spec: the genotype of an individual at a variant; an individual
  the variant has no call for counts as \<open>missing\<close>.\<close>

definition genotype_of :: "variant \<Rightarrow> string \<Rightarrow> genotype" where
  "genotype_of v i = (case map_of (genotypes v) i of None \<Rightarrow> missing | Some g \<Rightarrow> g)"

text \<open>Modelled from the spec: the parents \<open>f\<close>, \<open>m\<close> of an individual "if present":
  parent id \<open>0\<close> denotes a founder, and a parent id that names no individual of the
  family is absent.\<close>

definition present_parents :: "family \<Rightarrow> individual \<Rightarrow> string list" where
  "present_parents fam a =
     filter (\<lambda>p. p \<noteq> ''0'' \<and> map_of (individuals fam) p \<noteq> None) [father_id a, mother_id a]"

definition parent_genotypes :: "family \<Rightarrow> variant \<Rightarrow> individual \<Rightarrow> genotype list" where
  "parent_genotypes fam v a = map (genotype_of v) (present_parents fam a)"

text \<open>Modelled from the spec: "no unaffected individual is hom_alt".\<close>

definition unaffected_hom_alt :: "family \<Rightarrow> variant \<Rightarrow> bool" where
  "unaffected_hom_alt fam v =
     list_ex (\<lambda>(i, p). phenotype p = unaffected \<and> genotype_of v i = hom_alt) (individuals fam)"

text \<open>Modelled from the spec: the requirement of \<open>AR_hom\<close> on the calls of the parents
  present, "both parents are het or missing".\<close>

definition parents_carriers :: "genotype list \<Rightarrow> bool" where
  "parents_carriers calls = list_all (\<lambda>g. g = het \<or> g = missing) calls"

text \<open>Modelled from the spec: the requirement of \<open>AR_hom_denovo\<close> on the calls of the
  parents present, "at least one parent is hom_ref", where "missing parent genotypes are
  treated permissively -- they neither confirm nor refute de-novo calls". A call
  \<open>hom_ref\<close> confirms the requirement; it is refuted when every parent present has a call
  and none of the calls is \<open>hom_ref\<close>; a missing call does neither.\<close>

definition de_novo_confirmed :: "genotype list \<Rightarrow> bool" where
  "de_novo_confirmed calls = list_ex (\<lambda>g. g = hom_ref) calls"

definition de_novo_refuted :: "genotype list \<Rightarrow> bool" where
  "de_novo_refuted calls = list_all (\<lambda>g. g \<noteq> hom_ref \<and> g \<noteq> missing) calls"

text \<open>Modelled from the spec: \<open>AR_hom\<close> for an affected individual \<open>a\<close>: "\<open>a\<close> is
  hom_alt; both parents are het or missing; no unaffected individual is hom_alt".\<close>

definition AR_hom_conditions :: "family \<Rightarrow> variant \<Rightarrow> individual \<Rightarrow> bool" where
  "AR_hom_conditions fam v a =
     (genotype_of v (ind_id a) = hom_alt \<and>
      parents_carriers (parent_genotypes fam v a) \<and>
      \<not> unaffected_hom_alt fam v)"

text \<open>Modelled from the spec: \<open>AR_hom_denovo\<close> for an affected individual \<open>a\<close>:
  "\<open>AR_hom\<close> conditions hold AND at least one parent is hom_ref". The spec's scenario 2
  (child hom_alt, father het, mother hom_ref: \<open>AR_hom\<close> false, \<open>AR_hom_denovo\<close> true)
  fixes the reading: the \<open>AR_hom\<close> conditions on the affected individual and on the
  unaffected individuals hold, and for the parents the de-novo requirement stands in
  place of the carrier one. By "a model is not falsified by missing calls alone", the
  model is falsified by the parents only when their calls refute the requirement.\<close>

definition AR_hom_denovo_conditions :: "family \<Rightarrow> variant \<Rightarrow> individual \<Rightarrow> bool" where
  "AR_hom_denovo_conditions fam v a =
     (genotype_of v (ind_id a) = hom_alt \<and>
      \<not> de_novo_refuted (parent_genotypes fam v a) \<and>
      \<not> unaffected_hom_alt fam v)"

text \<open>Modelled from the spec: the models are "evaluated for each affected individual",
  and a model "is asserted only when at least one affected individual has an informative
  genotype consistent with it": the flag holds when some affected individual has a call
  and every affected individual with a call meets the model's conditions.\<close>

definition informative_affected :: "family \<Rightarrow> variant \<Rightarrow> individual list" where
  "informative_affected fam v =
     filter (\<lambda>a. phenotype a = affected \<and> genotype_of v (ind_id a) \<noteq> missing)
       (map snd (individuals fam))"

definition model_flag ::
  "(family \<Rightarrow> variant \<Rightarrow> individual \<Rightarrow> bool) \<Rightarrow> family \<Rightarrow> variant \<Rightarrow> bool" where
  "model_flag conditions fam v =
     (informative_affected fam v \<noteq> [] \<and>
      list_all (conditions fam v) (informative_affected fam v))"

text \<open>Modelled from the spec: the two flags of the claim, as the classifier attaches them
  to a variant.\<close>

definition AR_hom :: "family \<Rightarrow> variant \<Rightarrow> bool" where
  "AR_hom fam v = model_flag AR_hom_conditions fam v"

definition AR_hom_denovo :: "family \<Rightarrow> variant \<Rightarrow> bool" where
  "AR_hom_denovo fam v = model_flag AR_hom_denovo_conditions fam v"

text \<open>
  The family of \<open>tests/test_recessive.py\<close> (\<open>setup_class\<close>): affected son \<open>1\<close>,
  healthy father \<open>2\<close>, healthy mother \<open>3\<close>, added in the order father, son, mother;
  and its four variants, with the calls of \<open>1\<close>, \<open>2\<close> and \<open>3\<close>: \<open>recessive_variant\<close>
  (\<open>1/1\<close>, \<open>0/1\<close>, \<open>0/1\<close>), \<open>recessive_dn\<close> (\<open>1/1\<close>, \<open>0/1\<close>, \<open>0/0\<close>),
  \<open>recessive_missing\<close> (\<open>1/1\<close>, \<open>./.\<close>, \<open>0/1\<close>) and \<open>not_recessive\<close>
  (\<open>0/1\<close>, \<open>0/1\<close>, \<open>./.\<close>).
\<close>

definition sick_son :: individual where
  "sick_son = \<lparr>ind_id = ''1'', family_id = ''1'', father_id = ''2'', mother_id = ''3'',
     sex = male, phenotype = affected\<rparr>"

definition healthy_father :: individual where
  "healthy_father = \<lparr>ind_id = ''2'', family_id = ''1'', father_id = ''0'', mother_id = ''0'',
     sex = male, phenotype = unaffected\<rparr>"

definition healthy_mother :: individual where
  "healthy_mother = \<lparr>ind_id = ''3'', family_id = ''1'', father_id = ''0'', mother_id = ''0'',
     sex = female, phenotype = unaffected\<rparr>"

definition recessive_family :: family where
  "recessive_family = \<lparr>fam_id = ''1'',
     individuals = [(''2'', healthy_father), (''1'', sick_son), (''3'', healthy_mother)]\<rparr>"

definition recessive_variant :: variant where
  "recessive_variant = \<lparr>chrom = ''1'', pos = 5, ref = ''C'', alt = ''A'',
     var_id = ''rs2230749'', genotypes = [(''1'', hom_alt), (''2'', het), (''3'', het)]\<rparr>"

definition recessive_dn :: variant where
  "recessive_dn = \<lparr>chrom = ''1'', pos = 7, ref = ''T'', alt = ''G'', var_id = ''.'',
     genotypes = [(''1'', hom_alt), (''2'', het), (''3'', hom_ref)]\<rparr>"

definition recessive_missing :: variant where
  "recessive_missing = \<lparr>chrom = ''1'', pos = 10, ref = ''T'', alt = ''C'', var_id = ''.'',
     genotypes = [(''1'', hom_alt), (''2'', missing), (''3'', het)]\<rparr>"

definition not_recessive :: variant where
  "not_recessive = \<lparr>chrom = ''1'', pos = 15, ref = ''T'', alt = ''C'', var_id = ''.'',
     genotypes = [(''1'', het), (''2'', het), (''3'', missing)]\<rparr>"

section \<open>run_genmod.py: the helpers\<close>

text \<open>
  The keyword arguments of a run: the parameters of \<open>annotate\<close>, which it collects in
  the dictionary \<open>kwargs\<close> under the same names (\<open>verbosity\<close> is \<open>config.verbose\<close>). An
  option that was not given is \<open>None\<close>; a flag that was not given is \<open>False\<close>.
\<close>

record kwargs =
  verbosity :: bool
  family_file :: string
  variant_file :: string
  family_type :: string
  vep :: bool
  silent :: bool
  phased :: bool
  whole_gene :: bool
  annotation_dir :: string
  cadd_file :: "string option"
  cadd_1000g :: "string option"
  thousand_g :: "string option"
  outfile :: "string option"

text \<open>
  \<open>get_family\<close>: the pedigree parser (package \<open>ped_parser\<close>) is a parameter; it fails or
  yields the dictionary \<open>families\<close>, from family id to family.
\<close>

definition get_family ::
  "(string \<Rightarrow> string \<Rightarrow> exn + (string \<times> family) list) \<Rightarrow> string \<Rightarrow> string \<Rightarrow> exn + family" where
  "get_family family_parser ped_file ped_type =
     (case family_parser ped_file ped_type of
        Inl e \<Rightarrow> Inl e
      | Inr families \<Rightarrow>
          (case popitem families of
             Inl e \<Rightarrow> Inl e
           | Inr (item, rest) \<Rightarrow> Inr (snd item)))"

text \<open>
  \<open>add_metadata\<close>: the header object belongs to package \<open>vcf_parser\<close>; its method
  \<open>add_info(id, number, type, description)\<close> is a parameter. \<open>kwargs.get('vep', False)\<close>
  and \<open>kwargs.get(key, None)\<close> read the keyword arguments.
\<close>

type_synonym info = "string \<times> string \<times> string \<times> string"

definition ANN_info :: info where
  "ANN_info = (''ANN'', ''.'', ''String'', ''Annotates what feature(s) this variant belongs to.'')"

definition Comp_info :: info where
  "Comp_info = (''Comp'', ''.'', ''String'',
     CHR 0x27 # '':'' @ CHR 0x27 # ''-separated list of compound pairs for this variant.'')"

definition GM_info :: info where
  "GM_info = (''GM'', ''.'', ''String'',
     CHR 0x27 # '':'' @ CHR 0x27 # ''-separated list of genetic models for this variant.'')"

definition MS_info :: info where
  "MS_info = (''MS'', ''1'', ''Integer'', ''PHRED score for genotype models.'')"

definition CADD_info :: info where
  "CADD_info = (''CADD'', ''1'', ''Float'', ''The CADD relative score for this alternative.'')"

definition freq_1000G_info :: info where
  "freq_1000G_info = (''1000G_freq'', ''1'', ''Float'', ''Frequency in the 1000G database.'')"

definition add_metadata :: "('h \<Rightarrow> info \<Rightarrow> 'h) \<Rightarrow> 'h \<Rightarrow> kwargs \<Rightarrow> 'h" where
  "add_metadata add_info head kw =
     (let h1 = (if \<not> vep kw then add_info head ANN_info else head);
          h2 = add_info h1 Comp_info;
          h3 = add_info h2 GM_info;
          h4 = add_info h3 MS_info;
          h5 = (if truthy (cadd_file kw) \<or> truthy (cadd_1000g kw)
                then add_info h4 CADD_info else h4);
          h6 = (if truthy (thousand_g kw) then add_info h5 freq_1000G_info else h5)
      in h6)"

text \<open>
  \<open>print_headers\<close>: the header's method \<open>print_header()\<close> is a parameter, and so is the
  outcome of opening a path for writing (\<open>None\<close>: the file is open and empty).
\<close>

definition print_headers ::
  "('h \<Rightarrow> string list) \<Rightarrow> (string \<Rightarrow> exn option) \<Rightarrow> 'h \<Rightarrow> string option \<Rightarrow> bool \<Rightarrow> unit io" where
  "print_headers print_header open_w head out quiet =
     (if truthy out then
        (case out of
           None \<Rightarrow> emit []
         | Some path \<Rightarrow>
             (case open_w path of
                Some e \<Rightarrow> raise e
              | None \<Rightarrow>
                  emit (OpenW path #
                    map (\<lambda>head_count. FileWrite path (head_count @ [CHR 0x0A]))
                      (print_header head))))
      else if \<not> quiet then emit (map Print (print_header head))
      else emit [])"

text \<open>
  The files after a sequence of events: opening for writing leaves the file empty,
  writing appends.
\<close>

fun apply_event :: "event \<Rightarrow> (string \<rightharpoonup> string) \<Rightarrow> (string \<rightharpoonup> string)" where
  "apply_event (OpenW p) fs = fs(p \<mapsto> [])"
| "apply_event (FileWrite p s) fs = fs(p \<mapsto> (case fs p of None \<Rightarrow> s | Some c \<Rightarrow> c @ s))"
| "apply_event e fs = fs"

definition run_fs :: "event list \<Rightarrow> (string \<rightharpoonup> string) \<Rightarrow> (string \<rightharpoonup> string)" where
  "run_fs t fs = fold apply_event t fs"

fun printed :: "event list \<Rightarrow> string list" where
  "printed [] = []"
| "printed (Print s # t) = s # printed t"
| "printed (e # t) = printed t"

text \<open>
  \<open>check_tabix_index\<close>: \<open>pysam.tabix_index\<close> is a parameter, called with the column
  layout or the preset; \<open>None\<close> is its normal return.
\<close>

datatype tabix_mode = Columns nat nat nat char | Preset string

definition check_tabix_index ::
  "(string \<Rightarrow> tabix_mode \<Rightarrow> exn option) \<Rightarrow> string \<Rightarrow> string \<Rightarrow> bool \<Rightarrow> unit io" where
  "check_tabix_index tabix_index compressed_file file_type verbose =
     (if file_type = ''cadd'' then
        (case tabix_index compressed_file (Columns 0 1 1 (CHR ''#'')) of
           None \<Rightarrow> emit []
         | Some e \<Rightarrow>
             if is_IOError e then when_io verbose (emit [Print (exn_str e)]) else raise e)
      else if file_type = ''vcf'' then
        (case tabix_index compressed_file (Preset ''vcf'') of
           None \<Rightarrow> emit []
         | Some e \<Rightarrow>
             if is_IOError e then when_io verbose (emit [Print (exn_str e)]) else raise e)
      else emit [])"

section \<open>run_genmod.py: build_annotation\<close>

text \<open>
  The annotation parser (\<open>genmod.utils.annotation_parser\<close>) and \<open>pickle.dump\<close> are
  parameters: the parser fails or yields the gene trees and the exon trees.
\<close>

definition write_blob :: "(string \<Rightarrow> exn option) \<Rightarrow> string \<Rightarrow> string \<Rightarrow> unit io" where
  "write_blob open_w path blob =
     (case open_w path of
        Some e \<Rightarrow> raise e
      | None \<Rightarrow> emit [OpenW path, FileWrite path blob])"

definition build_annotation ::
  "(string \<Rightarrow> string \<Rightarrow> int \<Rightarrow> bool \<Rightarrow> exn + ('t \<times> 't)) \<Rightarrow> ('t \<Rightarrow> string) \<Rightarrow>
   (string \<Rightarrow> exn option) \<Rightarrow> bool \<Rightarrow> string \<Rightarrow> string \<Rightarrow> string \<Rightarrow> int \<Rightarrow> unit io" where
  "build_annotation annotation_parser dump open_w verbose annotation_file annotation_type
       outdir splice_padding =
     bind_io (when_io verbose (emit [Print (''Building new annotation databases from '' @
                annotation_file @ '' into '' @ outdir @ ''.'')])) (\<lambda>_.
     bind_io ([], annotation_parser annotation_file annotation_type splice_padding verbose)
       (\<lambda>(gene_trees, exon_trees).
     let gene_db = path_join outdir ''genes.db'';
         exon_db = path_join outdir ''exons.db''
     in bind_io (write_blob open_w gene_db (dump gene_trees)) (\<lambda>_.
        write_blob open_w exon_db (dump exon_trees))))"

text \<open>The paths a run opened for writing, in order.\<close>

fun opened :: "event list \<Rightarrow> string list" where
  "opened [] = []"
| "opened (OpenW p # t) = p # opened t"
| "opened (e # t) = opened t"

section \<open>run_genmod.py: annotate\<close>

text \<open>
  What a run of \<open>annotate\<close> meets outside \<open>run_genmod.py\<close>: the machine, the file
  system and the packages it calls. Each field is the outcome of one call; a call that
  can raise yields the exception or its value. \<open>env_load path\<close> is the outcome of opening
  \<open>path\<close> for reading and unpickling it (\<open>None\<close>: loaded). \<open>env_annotator\<close> is the outcome
  of \<open>VariantAnnotator.annotate()\<close>: the chromosomes seen. The header type \<open>'h\<close> is that
  of package \<open>vcf_parser\<close>. \<open>env_elapsed\<close> is the text of the elapsed time. Making the
  scratch directory, listing it, and creating and starting the queues and processes are
  taken to succeed; what the worker processes do is outside this model.
\<close>

record 'h vcf =
  vcf_individuals :: "string list"
  metadata :: 'h

record 'h env =
  env_cpu_count :: nat
  env_load :: "string \<Rightarrow> exn option"
  env_family_parser :: "string \<Rightarrow> string \<Rightarrow> exn + (string \<times> family) list"
  env_tabix_index :: "string \<Rightarrow> tabix_mode \<Rightarrow> exn option"
  env_vcf_parser :: "string \<Rightarrow> exn + 'h vcf"
  env_mkdtemp :: string
  env_annotator :: "exn + string list"
  env_listdir :: "string \<Rightarrow> string list"
  env_file_sort :: "string \<Rightarrow> exn option"
  env_open_w :: "string \<Rightarrow> exn option"
  env_add_info :: "'h \<Rightarrow> info \<Rightarrow> 'h"
  env_print_header :: "'h \<Rightarrow> string list"
  env_elapsed :: string

text \<open>Lines 236--245: loading the two index files; \<open>FileNotFoundError\<close> is caught,
  reported, and passed over.\<close>

definition build_annotations_message :: string where
  "build_annotations_message = ''You need to build annotations! See documentation.''"

definition load_index :: "(string \<Rightarrow> exn option) \<Rightarrow> string \<Rightarrow> unit io" where
  "load_index load dir =
     (let gene_db = path_join dir ''genes.db'';
          exon_db = path_join dir ''exons.db''
      in case load gene_db of
           Some e \<Rightarrow>
             if is_FileNotFoundError e then emit [Print build_annotations_message] else raise e
         | None \<Rightarrow>
             (case load exon_db of
                Some e \<Rightarrow>
                  if is_FileNotFoundError e then emit [Print build_annotations_message]
                  else raise e
              | None \<Rightarrow> emit []))"

text \<open>Lines 249--260: the three optional sources.\<close>

fun path_of :: "string option \<Rightarrow> string" where
  "path_of None = []"
| "path_of (Some s) = s"

definition check_source ::
  "(string \<Rightarrow> tabix_mode \<Rightarrow> exn option) \<Rightarrow> bool \<Rightarrow> string option \<Rightarrow> string \<Rightarrow> unit io" where
  "check_source tabix_index verbose src file_type =
     when_io (truthy src)
       (bind_io (when_io verbose (emit [Print (''Cadd file! '' @ path_of src)])) (\<lambda>_.
        check_tabix_index tabix_index (path_of src) file_type verbose))"

definition check_sources :: "'h env \<Rightarrow> kwargs \<Rightarrow> unit io" where
  "check_sources env kw =
     bind_io (check_source (env_tabix_index env) (verbosity kw) (cadd_file kw) ''cadd'') (\<lambda>_.
     bind_io (check_source (env_tabix_index env) (verbosity kw) (cadd_1000g kw) ''cadd'') (\<lambda>_.
     check_source (env_tabix_index env) (verbosity kw) (thousand_g kw) ''vcf''))"

text \<open>Lines 265--270: the report of a pedigree that does not match the variant file.\<close>

definition mismatch_report :: "family \<Rightarrow> 'h vcf \<Rightarrow> event list" where
  "mismatch_report fam variant_parser =
     [Print ''There must be same individuals in ped file and vcf file! Aborting...'',
      Print (''Individuals in PED file: '' @ join [CHR 0x09] (map fst (individuals fam))),
      Print (''Individuals in VCF file: '' @ join [CHR 0x09] (vcf_individuals variant_parser))]"

text \<open>Line 286: the number of classifier workers.\<close>

definition num_model_checkers :: nat where
  "num_model_checkers = 1"

text \<open>Lines 331--335: sorting the spill files of each chromosome.\<close>

fun sort_files :: "(string \<Rightarrow> exn option) \<Rightarrow> string \<Rightarrow> string \<Rightarrow> string list \<Rightarrow> unit io" where
  "sort_files file_sort temp_dir chromosome [] = emit []"
| "sort_files file_sort temp_dir chromosome (temp_file # rest) =
     bind_io
       (if takeWhile (\<lambda>c. c \<noteq> CHR ''_'') temp_file = chromosome then
          (case file_sort (path_join temp_dir temp_file) of
             Some e \<Rightarrow> raise e
           | None \<Rightarrow> emit [SortFile (path_join temp_dir temp_file)])
        else emit [])
       (\<lambda>_. sort_files file_sort temp_dir chromosome rest)"

fun sort_chromosomes :: "'h env \<Rightarrow> string \<Rightarrow> string list \<Rightarrow> unit io" where
  "sort_chromosomes env temp_dir [] = emit []"
| "sort_chromosomes env temp_dir (chromosome # rest) =
     bind_io (sort_files (env_file_sort env) temp_dir chromosome (env_listdir env temp_dir))
       (\<lambda>_. sort_chromosomes env temp_dir rest)"

text \<open>Lines 329--344, what follows the call of \<open>add_metadata\<close>: the headers, the sorting,
  the timing report (line 341 reads \<open>start_time_analysis\<close>, a name that is never bound)
  and the removal of the scratch directory.\<close>

definition finish :: "'h env \<Rightarrow> kwargs \<Rightarrow> 'h \<Rightarrow> string \<Rightarrow> string list \<Rightarrow> unit io" where
  "finish env kw head temp_dir chromosome_list =
     bind_io (print_headers (env_print_header env) (env_open_w env) head (outfile kw) (silent kw))
       (\<lambda>_.
     bind_io (sort_chromosomes env temp_dir chromosome_list) (\<lambda>_.
     bind_io (when_io (verbosity kw)
                (bind_io (emit [Print ''Sorting done!'',
                                Print (''Time for sorting: '' @ env_elapsed env),
                                Print []]) (\<lambda>_.
                 raise (NameError (''name '' @ CHR 0x27 # ''start_time_analysis'' @
                          CHR 0x27 # '' is not defined''))))) (\<lambda>_.
     emit [RmTree temp_dir])))"

text \<open>Lines 278--328: the pipeline. The queues are objects in memory and leave no
  event. Line 328 calls \<open>add_metadata(head, kwargs)\<close>: two positional arguments for a
  function declared \<open>add_metadata(head, **kwargs)\<close>, which accepts one.\<close>

definition run_pipeline :: "'h env \<Rightarrow> kwargs \<Rightarrow> 'h \<Rightarrow> unit io" where
  "run_pipeline env kw head =
     (let temp_dir = env_mkdtemp env in
      bind_io (emit [MkTemp temp_dir]) (\<lambda>_.
      bind_io (when_io (verbosity kw)
                 (emit [Print (''Number of CPU:s '' @ str_nat (env_cpu_count env))])) (\<lambda>_.
      bind_io (emit (map StartWorker [0..<num_model_checkers])) (\<lambda>_.
      bind_io (emit [StartPrinter temp_dir]) (\<lambda>_.
      bind_io (when_io (verbosity kw)
                 (emit [Print ''Start parsing the variants ...'', Print []])) (\<lambda>_.
      bind_io (case env_annotator env of
                 Inl e \<Rightarrow> raise e
               | Inr chromosomes \<Rightarrow> ([RunAnnotator], Inr chromosomes)) (\<lambda>chromosome_list.
      bind_io (emit (replicate num_model_checkers WorkPutNone @
                 [WorkJoin, ResultsPutNone, PrinterJoin])) (\<lambda>_.
      bind_io (when_io (verbosity kw)
                 (emit [Print (''Cromosomes found in variant file: '' @
                          join '','' chromosome_list),
                        Print ''Models checked!'',
                        Print ''Start sorting the variants:'',
                        Print []])) (\<lambda>_.
      bind_io (call_positional ''add_metadata'' 1 2
                 ([], Inr (add_metadata (env_add_info env) head kw))) (\<lambda>head'.
      finish env kw head' temp_dir chromosome_list))))))))))"

text \<open>Lines 235--270: everything before the pipeline, then the pipeline.\<close>

definition prepare :: "'h env \<Rightarrow> kwargs \<Rightarrow> (family \<times> 'h vcf) io" where
  "prepare env kw =
     bind_io (load_index (env_load env) (annotation_dir kw)) (\<lambda>_.
     bind_io ([], get_family (env_family_parser env) (family_file kw) (family_type kw))
       (\<lambda>fam.
     bind_io (check_sources env kw) (\<lambda>_.
     bind_io ([], env_vcf_parser env (variant_file kw)) (\<lambda>variant_parser.
     ([], Inr (fam, variant_parser))))))"

definition annotate :: "'h env \<Rightarrow> kwargs \<Rightarrow> unit io" where
  "annotate env kw =
     bind_io (prepare env kw) (\<lambda>(fam, variant_parser).
       if set (map fst (individuals fam)) \<noteq> set (vcf_individuals variant_parser) then
         bind_io (emit (mismatch_report fam variant_parser)) (\<lambda>_. raise (SystemExit None))
       else run_pipeline env kw (metadata variant_parser))"

text \<open>The worker count the specification states, for comparison.\<close>

definition spec_default_workers :: "nat \<Rightarrow> nat" where
  "spec_default_workers cpus = max 1 (cpus * 2 - 1)"

fun is_StartWorker :: "event \<Rightarrow> bool" where
  "is_StartWorker (StartWorker i) = True"
| "is_StartWorker e = False"

fun is_RmTree :: "event \<Rightarrow> bool" where
  "is_RmTree (RmTree d) = True"
| "is_RmTree e = False"

fun is_Print :: "event \<Rightarrow> bool" where
  "is_Print (Print s) = True"
| "is_Print e = False"

text \<open>The index is missing when opening the first file that is tried and not there raises
  \<open>FileNotFoundError\<close>: the genes file, or the exons file after the genes file loaded.\<close>

definition index_missing :: "(string \<Rightarrow> exn option) \<Rightarrow> string \<Rightarrow> bool" where
  "index_missing load dir =
     (case load (path_join dir ''genes.db'') of
        Some e \<Rightarrow> is_FileNotFoundError e
      | None \<Rightarrow>
          (case load (path_join dir ''exons.db'') of
             Some e \<Rightarrow> is_FileNotFoundError e
           | None \<Rightarrow> False))"

section \<open>Concrete runs\<close>

text \<open>
  A run on a machine with two processors, with a pedigree of one family of two
  individuals, a variant file of the same individuals, index files that load, one
  chromosome and one spill file. The header is kept as the list of the entries added
  to it.
\<close>

definition example_family :: family where
  "example_family = \<lparr>fam_id = ''F'', individuals =
     [(''child'', \<lparr>ind_id = ''child'', family_id = ''F'', father_id = ''dad'', mother_id = ''0'',
          sex = female, phenotype = affected\<rparr>),
      (''dad'', \<lparr>ind_id = ''dad'', family_id = ''F'', father_id = ''0'', mother_id = ''0'',
          sex = male, phenotype = unaffected\<rparr>)]\<rparr>"

definition other_family :: family where
  "other_family = \<lparr>fam_id = ''G'', individuals =
     [(''solo'', \<lparr>ind_id = ''solo'', family_id = ''G'', father_id = ''0'', mother_id = ''0'',
          sex = male, phenotype = affected\<rparr>)]\<rparr>"

definition example_kwargs :: kwargs where
  "example_kwargs = \<lparr>verbosity = False, family_file = ''family.ped'',
     variant_file = ''variants.vcf'', family_type = ''ped'', vep = False, silent = False,
     phased = False, whole_gene = False, annotation_dir = ''annotations/'',
     cadd_file = None, cadd_1000g = None, thousand_g = None, outfile = None\<rparr>"

definition example_env :: "info list env" where
  "example_env = \<lparr>env_cpu_count = 2,
     env_load = (\<lambda>p. None),
     env_family_parser = (\<lambda>f t. Inr [(''F'', example_family)]),
     env_tabix_index = (\<lambda>p m. None),
     env_vcf_parser = (\<lambda>p. Inr \<lparr>vcf_individuals = [''dad'', ''child''], metadata = []\<rparr>),
     env_mkdtemp = ''/tmp/tmpab12'',
     env_annotator = Inr [''1''],
     env_listdir = (\<lambda>d. [''1_variants'']),
     env_file_sort = (\<lambda>p. None),
     env_open_w = (\<lambda>p. None),
     env_add_info = (\<lambda>h i. h @ [i]),
     env_print_header = map fst,
     env_elapsed = ''0:00:01''\<rparr>"

text \<open>The same run with the index files absent.\<close>

definition no_index_env :: "info list env" where
  "no_index_env = example_env\<lparr>env_load := (\<lambda>p. Some (FileNotFoundError p))\<rparr>"


text \<open>The same run with a variant file that fails to parse halfway.\<close>

definition failing_env :: "info list env" where
  "failing_env = example_env\<lparr>env_annotator := Inl (OtherError ''malformed variant line'')\<rparr>"

text \<open>The same run with a pedigree of two families.\<close>

definition two_families_env :: "info list env" where
  "two_families_env = example_env\<lparr>env_family_parser :=
     (\<lambda>f t. Inr [(''G'', other_family), (''F'', example_family)])\<rparr>"

text \<open>The same run with a pedigree file that defines no family.\<close>

definition empty_pedigree_env :: "info list env" where
  "empty_pedigree_env = example_env\<lparr>env_family_parser := (\<lambda>f t. Inr [])\<rparr>"

section \<open>Sequencing\<close>

lemma fst_bind_io:
  "fst (bind_io m f) = (case snd m of Inl e \<Rightarrow> fst m | Inr x \<Rightarrow> fst m @ fst (f x))"
  by (cases m) (auto simp: bind_io_def split: sum.splits prod.splits)

lemma snd_bind_io:
  "snd (bind_io m f) = (case snd m of Inl e \<Rightarrow> Inl e | Inr x \<Rightarrow> snd (f x))"
  by (cases m) (auto simp: bind_io_def split: sum.splits prod.splits)

lemma bind_io_emit [simp]: "bind_io (emit t) f = (t @ fst (f ()), snd (f ()))"
  by (simp add: bind_io_def emit_def split: prod.splits)

lemma bind_io_raise [simp]: "bind_io (raise e) f = ([], Inl e)"
  by (simp add: bind_io_def raise_def)

lemma bind_io_value [simp]: "bind_io (t, Inr x) f = (t @ fst (f x), snd (f x))"
  by (simp add: bind_io_def split: prod.splits)

lemma bind_io_fail [simp]: "bind_io (t, Inl e) f = (t, Inl e)"
  by (simp add: bind_io_def)

lemma fst_emit [simp]: "fst (emit t) = t"
  by (simp add: emit_def)

lemma snd_emit [simp]: "snd (emit t) = Inr ()"
  by (simp add: emit_def)

lemma fst_raise [simp]: "fst (raise e) = []"
  by (simp add: raise_def)

lemma snd_raise [simp]: "snd (raise e) = Inl e"
  by (simp add: raise_def)

lemma bind_io_cons:
  "bind_io (a # fst m, snd m) f = (a # fst (bind_io m f), snd (bind_io m f))"
  by (cases m) (auto simp: bind_io_def split: sum.splits prod.splits)

lemma list_all_when_io:
  "list_all P (fst m) \<Longrightarrow> list_all P (fst (when_io b m))"
  by (simp add: when_io_def)

lemma list_all_bind_io:
  "list_all P (fst m) \<Longrightarrow> (\<And>x. list_all P (fst (f x))) \<Longrightarrow> list_all P (fst (bind_io m f))"
  by (simp add: fst_bind_io split: sum.splits)

section \<open>The classifier on a family of a child and two parents\<close>

lemmas classifier_defs = AR_hom_def AR_hom_denovo_def model_flag_def informative_affected_def
  AR_hom_conditions_def AR_hom_denovo_conditions_def unaffected_hom_alt_def
  parent_genotypes_def present_parents_def parents_carriers_def de_novo_refuted_def
  genotype_of_def

lemmas recessive_test_defs = recessive_family_def recessive_variant_def recessive_dn_def
  recessive_missing_def not_recessive_def sick_son_def healthy_father_def healthy_mother_def

text \<open>A missing call neither confirms nor refutes the de-novo requirement.\<close>

lemma missing_call_undetermined:
  "\<not> de_novo_confirmed [missing, het] \<and> \<not> de_novo_refuted [missing, het]"
  by (simp add: de_novo_confirmed_def de_novo_refuted_def)

subsection \<open>A family of an affected child and its two unaffected parents\<close>

lemma trio_parents:
  assumes "set (individuals fam) = {(f, dad), (c, kid), (m, mum)}"
    and "father_id kid = f" and "mother_id kid = m" and "f \<noteq> ''0''" and "m \<noteq> ''0''"
  shows "parent_genotypes fam v kid = [genotype_of v f, genotype_of v m]"
proof -
  have "map_of (individuals fam) f \<noteq> None" "map_of (individuals fam) m \<noteq> None"
    using assms(1) by (simp_all add: map_of_eq_None_iff)
  with assms show ?thesis by (simp add: parent_genotypes_def present_parents_def)
qed

lemma trio_unaffected_hom_alt:
  assumes "set (individuals fam) = {(f, dad), (c, kid), (m, mum)}"
    and "phenotype kid = affected" and "phenotype dad = unaffected" and "phenotype mum = unaffected"
  shows "unaffected_hom_alt fam v = (genotype_of v f = hom_alt \<or> genotype_of v m = hom_alt)"
  using assms by (auto simp: unaffected_hom_alt_def list_ex_iff)

lemma trio_model_flag:
  assumes "set (individuals fam) = {(f, dad), (c, kid), (m, mum)}"
    and "ind_id kid = c"
    and "phenotype kid = affected" and "phenotype dad = unaffected" and "phenotype mum = unaffected"
  shows "model_flag conditions fam v = (genotype_of v c \<noteq> missing \<and> conditions fam v kid)"
proof -
  have "set (informative_affected fam v) = (if genotype_of v c \<noteq> missing then {kid} else {})"
    using assms by (auto simp: informative_affected_def)
  then show ?thesis
    by (auto simp: model_flag_def list_all_iff simp flip: set_empty)
qed

text \<open>
  C1. For a family of an affected child, an unaffected father and an unaffected mother,
  a variant at which the child is \<open>hom_alt\<close>, the father's call is missing and the
  mother is \<open>het\<close> gets both \<open>AR_hom\<close> and \<open>AR_hom_denovo\<close>: the missing call of a
  parent falsifies neither model. For every variant, \<open>AR_hom\<close> holds exactly when the
  child is \<open>hom_alt\<close> and each parent is \<open>het\<close> or missing, and \<open>AR_hom_denovo\<close> holds
  exactly when the child is \<open>hom_alt\<close>, no parent is \<open>hom_alt\<close>, and some parent is
  \<open>hom_ref\<close> or missing.
\<close>

theorem trio_recessive_flags:
  assumes "set (individuals fam) = {(f, dad), (c, kid), (m, mum)}"
    and "ind_id kid = c" and "father_id kid = f" and "mother_id kid = m"
    and "f \<noteq> ''0''" and "m \<noteq> ''0''"
    and "phenotype kid = affected" and "phenotype dad = unaffected" and "phenotype mum = unaffected"
  shows "(genotype_of v c = hom_alt \<and> genotype_of v f = missing \<and> genotype_of v m = het \<longrightarrow>
            AR_hom fam v \<and> AR_hom_denovo fam v) \<and>
         AR_hom fam v =
           (genotype_of v c = hom_alt \<and>
            (genotype_of v f = het \<or> genotype_of v f = missing) \<and>
            (genotype_of v m = het \<or> genotype_of v m = missing)) \<and>
         AR_hom_denovo fam v =
           (genotype_of v c = hom_alt \<and>
            genotype_of v f \<noteq> hom_alt \<and> genotype_of v m \<noteq> hom_alt \<and>
            (genotype_of v f = hom_ref \<or> genotype_of v f = missing \<or>
             genotype_of v m = hom_ref \<or> genotype_of v m = missing))"
proof -
  have hom: "AR_hom fam v =
           (genotype_of v c = hom_alt \<and>
            (genotype_of v f = het \<or> genotype_of v f = missing) \<and>
            (genotype_of v m = het \<or> genotype_of v m = missing))"
    unfolding AR_hom_def trio_model_flag [OF assms(1,2,7,8,9)] AR_hom_conditions_def
      trio_parents [OF assms(1,3,4,5,6)] trio_unaffected_hom_alt [OF assms(1,7,8,9)]
    using assms(2) by (auto simp: parents_carriers_def)
  have dn: "AR_hom_denovo fam v =
           (genotype_of v c = hom_alt \<and>
            genotype_of v f \<noteq> hom_alt \<and> genotype_of v m \<noteq> hom_alt \<and>
            (genotype_of v f = hom_ref \<or> genotype_of v f = missing \<or>
             genotype_of v m = hom_ref \<or> genotype_of v m = missing))"
    unfolding AR_hom_denovo_def trio_model_flag [OF assms(1,2,7,8,9)] AR_hom_denovo_conditions_def
      trio_parents [OF assms(1,3,4,5,6)] trio_unaffected_hom_alt [OF assms(1,7,8,9)]
    using assms(2) by (auto simp: de_novo_refuted_def)
  show ?thesis
    unfolding hom dn by simp
qed

text \<open>The family and the four variants of \<open>tests/test_recessive.py\<close>, with the flags
  its tests assert.\<close>

theorem trio_recessive_flags_witness:
  "AR_hom recessive_family recessive_missing \<and>
   AR_hom_denovo recessive_family recessive_missing \<and>
   AR_hom recessive_family recessive_variant \<and>
   \<not> AR_hom_denovo recessive_family recessive_variant \<and>
   \<not> AR_hom recessive_family recessive_dn \<and>
   AR_hom_denovo recessive_family recessive_dn \<and>
   \<not> AR_hom recessive_family not_recessive \<and>
   \<not> AR_hom_denovo recessive_family not_recessive"
proof -
  have fam: "set (individuals recessive_family) =
      {(''2'', healthy_father), (''1'', sick_son), (''3'', healthy_mother)}"
    by (simp add: recessive_family_def)
  have kid: "ind_id sick_son = ''1''" "father_id sick_son = ''2''" "mother_id sick_son = ''3''"
    "phenotype sick_son = affected"
    by (simp_all add: sick_son_def)
  have par: "phenotype healthy_father = unaffected" "phenotype healthy_mother = unaffected"
    by (simp_all add: healthy_father_def healthy_mother_def)
  have ids: "''2'' \<noteq> ''0''" "''3'' \<noteq> ''0''" by simp_all
  note flags = trio_recessive_flags [OF fam kid(1,2,3) ids kid(4) par]
  from flags [of recessive_missing] flags [of recessive_variant] flags [of recessive_dn]
    flags [of not_recessive]
  show ?thesis
    by (simp add: genotype_of_def recessive_missing_def recessive_variant_def recessive_dn_def
        not_recessive_def)
qed

section \<open>The header entries\<close>

text \<open>
  C6, as the code has it. \<open>add_metadata\<close> adds to the header, in this order: the \<open>ANN\<close>
  entry exactly when the \<open>vep\<close> flag is off; the \<open>Comp\<close>, \<open>GM\<close> and \<open>MS\<close> entries always;
  the \<open>CADD\<close> entry exactly when \<open>cadd_file\<close> or \<open>cadd_1000g\<close> is given; the
  \<open>1000G_freq\<close> entry exactly when \<open>thousand_g\<close> is given.
\<close>

theorem add_metadata_entries:
  "add_metadata add_info head kw =
     foldl add_info head
       ((if vep kw then [] else [ANN_info]) @ [Comp_info, GM_info, MS_info] @
        (if truthy (cadd_file kw) \<or> truthy (cadd_1000g kw) then [CADD_info] else []) @
        (if truthy (thousand_g kw) then [freq_1000G_info] else []))"
  by (simp add: add_metadata_def Let_def)

theorem add_metadata_entries_witness:
  "add_metadata (\<lambda>h i. h @ [i]) [] (example_kwargs\<lparr>cadd_1000g := Some ''c.gz''\<rparr>) =
     [ANN_info, Comp_info, GM_info, MS_info, CADD_info]"
  using add_metadata_entries
    [of "\<lambda>h i. h @ [i]" "[]" "example_kwargs\<lparr>cadd_1000g := Some ''c.gz''\<rparr>"]
  by (simp add: example_kwargs_def)

text \<open>With the \<open>vep\<close> flag on, the header gets three entries and no \<open>ANN\<close> entry.\<close>

theorem vep_header_lacks_ANN:
  "add_metadata (\<lambda>h i. h @ [i]) [] (example_kwargs\<lparr>vep := True\<rparr>) =
     [Comp_info, GM_info, MS_info] \<and>
   ANN_info \<notin> set (add_metadata (\<lambda>h i. h @ [i]) [] (example_kwargs\<lparr>vep := True\<rparr>))"
  by (simp add: add_metadata_def Let_def example_kwargs_def ANN_info_def Comp_info_def
      GM_info_def MS_info_def)

section \<open>Errors of the tabix index\<close>

text \<open>
  C8, as the code has it. When \<open>tabix_index\<close> raises an \<open>IOError\<close>, \<open>check_tabix_index\<close>
  catches it and returns normally; the error's text is printed exactly when \<open>verbose\<close>
  is on (and the file type is one of the two it knows). With \<open>verbose\<close> off nothing is
  reported.
\<close>

theorem tabix_IOError_printed_iff_verbose:
  "is_IOError e \<Longrightarrow>
   check_tabix_index (\<lambda>p m. Some e) compressed_file file_type verbose =
     (if (file_type = ''cadd'' \<or> file_type = ''vcf'') \<and> verbose then [Print (exn_str e)]
      else [],
      Inr ())"
  by (simp add: check_tabix_index_def when_io_def emit_def)

theorem tabix_IOError_printed_iff_verbose_witness:
  "is_IOError (IOError ''index exists'') \<and>
   check_tabix_index (\<lambda>p m. Some (IOError ''index exists'')) ''freq.vcf.gz'' ''vcf'' True =
     ([Print ''index exists''], Inr ())"
  using tabix_IOError_printed_iff_verbose
    [of "IOError ''index exists''" "''freq.vcf.gz''" "''vcf''" True]
  by simp

text \<open>An \<open>IOError\<close> with \<open>verbose\<close> off: no output, and a normal return.\<close>

theorem tabix_IOError_swallowed:
  "check_tabix_index (\<lambda>p m. Some (IOError ''could not build index''))
     ''cadd.tsv.gz'' ''cadd'' False = ([], Inr ())"
  by (simp add: check_tabix_index_def when_io_def emit_def)

section \<open>The index blobs of build_annotation\<close>

lemma path_join_db_not_bare:
  "path_join d ''genes.db'' \<noteq> path_join d ''genes'' \<and>
   path_join d ''exons.db'' \<noteq> path_join d ''exons''"
  by (simp add: path_join_def)

text \<open>
  C7, as the code has it. When the feature file parses and both files open,
  \<open>build_annotation\<close> with destination directory \<open>D\<close> does exactly this, after its
  line in verbose mode: it opens \<open>D/genes.db\<close> (\<open>os.path.join\<close> of \<open>D\<close> and the name)
  for writing and writes the pickled gene trees to it, then opens \<open>D/exons.db\<close> and
  writes the pickled exon trees to it, and returns; neither path is \<open>D/genes\<close> or
  \<open>D/exons\<close>.
\<close>

theorem build_annotation_paths:
  assumes "annotation_parser annotation_file annotation_type splice_padding verbose = Inr (g, x)"
    and "open_w (path_join outdir ''genes.db'') = None"
    and "open_w (path_join outdir ''exons.db'') = None"
  shows "build_annotation annotation_parser dump open_w verbose annotation_file
            annotation_type outdir splice_padding =
          ((if verbose
            then [Print (''Building new annotation databases from '' @ annotation_file @
                    '' into '' @ outdir @ ''.'')]
            else []) @
           [OpenW (path_join outdir ''genes.db''),
            FileWrite (path_join outdir ''genes.db'') (dump g),
            OpenW (path_join outdir ''exons.db''),
            FileWrite (path_join outdir ''exons.db'') (dump x)],
           Inr ()) \<and>
         opened (fst (build_annotation annotation_parser dump open_w verbose annotation_file
            annotation_type outdir splice_padding)) =
          [path_join outdir ''genes.db'', path_join outdir ''exons.db''] \<and>
         snd (build_annotation annotation_parser dump open_w verbose annotation_file
            annotation_type outdir splice_padding) = Inr () \<and>
         path_join outdir ''genes.db'' \<noteq> path_join outdir ''genes'' \<and>
         path_join outdir ''exons.db'' \<noteq> path_join outdir ''exons''"
  using assms
  by (simp add: build_annotation_def write_blob_def when_io_def Let_def path_join_db_not_bare)

theorem build_annotation_paths_witness:
  "build_annotation (\<lambda>f t p v. Inr (''G'', ''E'')) (\<lambda>t. ''pickled '' @ t) (\<lambda>p. None) True
      ''features.txt'' ''gene_pred'' ''/data/anno/'' 2 =
     ([Print ''Building new annotation databases from features.txt into /data/anno/.'',
       OpenW ''/data/anno/genes.db'', FileWrite ''/data/anno/genes.db'' ''pickled G'',
       OpenW ''/data/anno/exons.db'', FileWrite ''/data/anno/exons.db'' ''pickled E''],
      Inr ()) \<and>
   opened (fst (build_annotation (\<lambda>f t p v. Inr (''G'', ''E'')) (\<lambda>t. ''pickled '' @ t)
      (\<lambda>p. None) True ''features.txt'' ''gene_pred'' ''/data/anno/'' 2)) =
     [''/data/anno/genes.db'', ''/data/anno/exons.db'']"
  using build_annotation_paths
    [of "\<lambda>f t p v. Inr (''G'', ''E'')" "''features.txt''" "''gene_pred''" 2 True "''G''" "''E''"
        "\<lambda>p. None" "''/data/anno/''" "\<lambda>t. ''pickled '' @ t"]
  by (simp add: path_join_def)

text \<open>With destination \<open>annotations\<close> the files written are not \<open>annotations/genes\<close> and
  \<open>annotations/exons\<close>.\<close>

theorem build_annotation_not_bare_names:
  "opened (fst (build_annotation (\<lambda>f t p v. Inr (''G'', ''E'')) (\<lambda>t. t) (\<lambda>p. None) False
      ''features.txt'' ''gene_pred'' ''annotations'' 2)) =
     [''annotations/genes.db'', ''annotations/exons.db''] \<and>
   opened (fst (build_annotation (\<lambda>f t p v. Inr (''G'', ''E'')) (\<lambda>t. t) (\<lambda>p. None) False
      ''features.txt'' ''gene_pred'' ''annotations'' 2)) \<noteq>
     [path_join ''annotations'' ''genes'', path_join ''annotations'' ''exons'']"
  by (simp add: build_annotation_def write_blob_def when_io_def Let_def path_join_def)

section \<open>The header file\<close>

lemma fold_writes:
  "fs p = Some c \<Longrightarrow>
   fold apply_event (map (\<lambda>l. FileWrite p (g l)) ls) fs p = Some (c @ concat (map g ls))"
  by (induction ls arbitrary: fs c) simp_all

lemma printed_writes [simp]: "printed (map (\<lambda>l. FileWrite p (g l)) ls) = []"
  by (induction ls) simp_all

lemma printed_prints [simp]: "printed (map Print ls) = ls"
  by (induction ls) simp_all

lemma opened_prints [simp]: "opened (map Print ls) = []"
  by (induction ls) simp_all

text \<open>
  C10. When an outfile path is given, \<open>print_headers\<close> does the same whatever the silent
  flag is: it opens the path for writing, which empties an existing file, and writes the
  header lines, each followed by a newline; when the file opens, the file then holds
  exactly these lines, whatever it held before, and nothing is printed. Without an
  outfile the lines are printed unless the silent flag is set, and no file is opened.
\<close>

theorem print_headers_outfile_ignores_silent:
  "(truthy out \<longrightarrow>
      print_headers print_header open_w head out quiet =
        print_headers print_header open_w head out (\<not> quiet) \<and>
      (open_w (path_of out) = None \<longrightarrow>
         snd (print_headers print_header open_w head out quiet) = Inr () \<and>
         run_fs (fst (print_headers print_header open_w head out quiet)) fs (path_of out) =
           Some (concat (map (\<lambda>l. l @ [CHR 0x0A]) (print_header head))) \<and>
         printed (fst (print_headers print_header open_w head out quiet)) = [])) \<and>
   (\<not> truthy out \<longrightarrow>
      printed (fst (print_headers print_header open_w head out quiet)) =
        (if quiet then [] else print_header head) \<and>
      opened (fst (print_headers print_header open_w head out quiet)) = [])"
proof (cases out)
  case None
  then show ?thesis by (simp add: print_headers_def)
next
  case (Some path)
  show ?thesis
  proof (cases "path = []")
    case True
    with Some show ?thesis by (simp add: print_headers_def)
  next
    case False
    with Some show ?thesis
      by (auto simp: print_headers_def run_fs_def fold_writes split: option.splits)
  qed
qed

theorem print_headers_outfile_witness:
  "print_headers (map fst) (\<lambda>p. None) [ANN_info, GM_info] (Some ''out.vcf'') True =
     ([OpenW ''out.vcf'', FileWrite ''out.vcf'' (''ANN'' @ [CHR 0x0A]),
       FileWrite ''out.vcf'' (''GM'' @ [CHR 0x0A])], Inr ()) \<and>
   run_fs (fst (print_headers (map fst) (\<lambda>p. None) [ANN_info, GM_info] (Some ''out.vcf'') True))
       [''out.vcf'' \<mapsto> ''old contents''] ''out.vcf'' =
     Some (''ANN'' @ [CHR 0x0A] @ ''GM'' @ [CHR 0x0A]) \<and>
   printed (fst (print_headers (map fst) (\<lambda>p. None) [ANN_info, GM_info] None True)) = [] \<and>
   printed (fst (print_headers (map fst) (\<lambda>p. None) [ANN_info, GM_info] None False)) =
     [''ANN'', ''GM'']"
  using print_headers_outfile_ignores_silent
    [of "Some ''out.vcf''" "map fst" "\<lambda>p. None" "[ANN_info, GM_info]" True
        "[''out.vcf'' \<mapsto> ''old contents'']"]
    print_headers_outfile_ignores_silent
    [of None "map fst" "\<lambda>p. None" "[ANN_info, GM_info]" True Map.empty]
    print_headers_outfile_ignores_silent
    [of None "map fst" "\<lambda>p. None" "[ANN_info, GM_info]" False Map.empty]
  by (simp add: print_headers_def ANN_info_def GM_info_def emit_def)

section \<open>The runs of annotate\<close>

lemmas run_defs = annotate_def prepare_def load_index_def get_family_def popitem_def
  check_sources_def check_source_def when_io_def run_pipeline_def Let_def
  num_model_checkers_def call_positional_def mismatch_report_def

lemmas example_defs = example_env_def example_kwargs_def example_family_def other_family_def

subsection \<open>Before the pipeline only lines are printed\<close>

lemma load_index_prints: "list_all is_Print (fst (load_index load dir))"
  by (simp add: load_index_def Let_def split: option.splits)

lemma check_tabix_index_prints:
  "list_all is_Print (fst (check_tabix_index tabix f ty v))"
  by (simp add: check_tabix_index_def when_io_def split: option.splits)

lemma check_source_prints: "list_all is_Print (fst (check_source tabix v src ty))"
  unfolding check_source_def
  by (intro list_all_when_io list_all_bind_io check_tabix_index_prints) simp

lemma check_sources_prints: "list_all is_Print (fst (check_sources env kw))"
  unfolding check_sources_def
  by (intro list_all_bind_io check_source_prints)

lemma prepare_prints: "list_all is_Print (fst (prepare env kw))"
  unfolding prepare_def
  by (intro list_all_bind_io load_index_prints check_sources_prints) simp_all

lemma mismatch_report_prints: "list_all is_Print (mismatch_report fam vp)"
  by (simp add: mismatch_report_def)


lemma Print_not_RmTree: "list_all is_Print t \<Longrightarrow> \<not> list_ex is_RmTree t"
  by (induction t) (auto elim: is_Print.elims)

subsection \<open>The fields of the environment a phase reads\<close>

lemma sort_chromosomes_env_load [simp]:
  "sort_chromosomes (env\<lparr>env_load := l\<rparr>) d cs = sort_chromosomes env d cs"
  by (induction cs) simp_all

lemma sort_chromosomes_env_family_parser [simp]:
  "sort_chromosomes (env\<lparr>env_family_parser := p\<rparr>) d cs = sort_chromosomes env d cs"
  by (induction cs) simp_all

lemma run_pipeline_env_load [simp]:
  "run_pipeline (env\<lparr>env_load := l\<rparr>) kw head = run_pipeline env kw head"
  by (simp add: run_pipeline_def finish_def)

lemma run_pipeline_env_family_parser [simp]:
  "run_pipeline (env\<lparr>env_family_parser := p\<rparr>) kw head = run_pipeline env kw head"
  by (simp add: run_pipeline_def finish_def)

subsection \<open>The individuals of the pedigree and of the variant file\<close>




subsection \<open>The missing index\<close>

lemma load_index_missing:
  "index_missing load dir \<Longrightarrow> load_index load dir = emit [Print build_annotations_message]"
  by (simp add: index_missing_def load_index_def Let_def split: option.splits)

lemma load_index_present: "load_index (\<lambda>p. None) dir = emit []"
  by (simp add: load_index_def)

lemma prepare_missing_index:
  assumes "index_missing (env_load env) (annotation_dir kw)"
  shows "prepare env kw =
     (Print build_annotations_message # fst (prepare (env\<lparr>env_load := (\<lambda>p. None)\<rparr>) kw),
      snd (prepare (env\<lparr>env_load := (\<lambda>p. None)\<rparr>) kw))"
  using assms
  by (simp add: prepare_def load_index_missing load_index_present check_sources_def)

text \<open>
  C2, as the code has it. When the index files are missing from the annotation
  directory (\<open>genes.db\<close>, or \<open>exons.db\<close> after \<open>genes.db\<close> loaded, is not found),
  \<open>annotate\<close> prints \<open>You need to build annotations! See documentation.\<close> and goes on:
  the rest of the run, its events and its outcome, is that of the same run with the
  index files present. The missing index ends nothing and sets no exit status.
\<close>

theorem missing_index_reported_and_passed_over:
  assumes "index_missing (env_load env) (annotation_dir kw)"
  shows "annotate env kw =
     (Print build_annotations_message # fst (annotate (env\<lparr>env_load := (\<lambda>p. None)\<rparr>) kw),
      snd (annotate (env\<lparr>env_load := (\<lambda>p. None)\<rparr>) kw))"
  unfolding annotate_def prepare_missing_index [OF assms] bind_io_cons
  by (simp cong: if_cong)

theorem missing_index_witness:
  "index_missing (env_load no_index_env) (annotation_dir example_kwargs) \<and>
   annotate no_index_env example_kwargs =
     (Print ''You need to build annotations! See documentation.'' #
        fst (annotate example_env example_kwargs),
      snd (annotate example_env example_kwargs))"
proof -
  have m: "index_missing (env_load no_index_env) (annotation_dir example_kwargs)"
    by (simp add: index_missing_def no_index_env_def)
  have e: "no_index_env\<lparr>env_load := (\<lambda>p. None)\<rparr> = example_env"
    by (simp add: no_index_env_def example_env_def)
  from missing_index_reported_and_passed_over [OF m] m e show ?thesis
    by (simp add: build_annotations_message_def)
qed

text \<open>A run with no index file: a worker is started, and the exit status is not 3.\<close>

theorem missing_index_run_starts_worker:
  "index_missing (env_load no_index_env) (annotation_dir example_kwargs) \<and>
   StartWorker 0 \<in> set (fst (annotate no_index_env example_kwargs)) \<and>
   exit_status (snd (annotate no_index_env example_kwargs)) \<noteq> 3"
  by (simp add: run_defs index_missing_def no_index_env_def example_defs insert_commute)

subsection \<open>The number of workers\<close>

text \<open>
  Line 284 says "Adapt the number of processes to the machine that run the analysis",
  line 285, with \<open>cpu_count()*2-1\<close>, is commented out, and line 286 sets the number to
  1: every run that reaches the pipeline starts exactly one worker, whatever the number
  of processors of the machine.
\<close>

lemma one_worker_whatever_cpu_count:
  "filter is_StartWorker (fst (run_pipeline env kw head)) = [StartWorker 0] \<and>
   num_model_checkers = 1"
  by (simp add: run_pipeline_def Let_def num_model_checkers_def when_io_def call_positional_def
      fst_bind_io split: sum.splits)

text \<open>
  C4. The number of classifier workers is to default to \<open>max(1, cpu_count*2 - 1)\<close>. On a
  machine with two processors that is three workers; the run starts one.
\<close>

theorem two_cpus_one_worker:
  "env_cpu_count example_env = 2 \<and>
   spec_default_workers (env_cpu_count example_env) = 3 \<and>
   filter is_StartWorker (fst (annotate example_env example_kwargs)) = [StartWorker 0] \<and>
   length (filter is_StartWorker (fst (annotate example_env example_kwargs))) \<noteq>
     spec_default_workers (env_cpu_count example_env)"
  by (simp add: run_defs example_defs spec_default_workers_def insert_commute)

subsection \<open>The scratch directory\<close>

lemma print_headers_keeps_dir:
  "list_all (\<lambda>e. \<not> is_RmTree e) (fst (print_headers ph ow head out quiet))"
  by (simp add: print_headers_def list_all_iff split: option.splits)

lemma sort_files_keeps_dir:
  "list_all (\<lambda>e. \<not> is_RmTree e) (fst (sort_files fsort d c fs))"
proof (induction fs)
  case Nil
  show ?case by simp
next
  case (Cons f fs)
  show ?case
    unfolding sort_files.simps
    by (rule list_all_bind_io) (simp_all add: Cons split: option.splits)
qed

lemma sort_chromosomes_keeps_dir:
  "list_all (\<lambda>e. \<not> is_RmTree e) (fst (sort_chromosomes env d cs))"
proof (induction cs)
  case Nil
  show ?case by simp
next
  case (Cons c cs)
  show ?case
    unfolding sort_chromosomes.simps
    by (rule list_all_bind_io) (simp_all add: Cons sort_files_keeps_dir)
qed

lemma not_list_ex: "(\<not> list_ex P t) = list_all (\<lambda>e. \<not> P e) t"
  by (induction t) simp_all

lemma finish_removes_iff_returns:
  "list_ex is_RmTree (fst (finish env kw head d cs)) = (snd (finish env kw head d cs) = Inr ())"
proof -
  have a: "\<not> list_ex is_RmTree (fst (print_headers (env_print_header env) (env_open_w env) head
             (outfile kw) (silent kw)))"
    by (simp add: not_list_ex print_headers_keeps_dir)
  have b: "\<not> list_ex is_RmTree (fst (sort_chromosomes env d cs))"
    by (simp add: not_list_ex sort_chromosomes_keeps_dir)
  show ?thesis
    using a b
    by (auto simp: finish_def fst_bind_io snd_bind_io when_io_def split: sum.splits)
qed

lemma run_pipeline_failure_keeps_dir:
  "snd (run_pipeline env kw head) = Inl e \<Longrightarrow> \<not> list_ex is_RmTree (fst (run_pipeline env kw head))"
  using finish_removes_iff_returns [of env kw _ "env_mkdtemp env"]
  by (auto simp: run_pipeline_def Let_def fst_bind_io snd_bind_io when_io_def call_positional_def
      num_model_checkers_def split: sum.splits if_splits)


lemma str_nat_1 [simp]: "str_nat (Suc 0) = ''1''"
  by code_simp

lemma str_nat_2 [simp]: "str_nat 2 = ''2''"
  by code_simp

text \<open>The example run: the pipeline runs to the call of \<open>add_metadata\<close> in line 328, which
  raises \<open>TypeError\<close>.\<close>

lemma example_run:
  "annotate example_env example_kwargs =
     ([MkTemp ''/tmp/tmpab12'', StartWorker 0, StartPrinter ''/tmp/tmpab12'', RunAnnotator,
       WorkPutNone, WorkJoin, ResultsPutNone, PrinterJoin],
      Inl (TypeError ''add_metadata() takes 1 positional argument but 2 were given''))"
  by (simp add: run_defs example_defs insert_commute)

text \<open>
  C5, as the code has it. The scratch directory is removed by the last statement of
  \<open>annotate\<close> only: a run of \<open>annotate\<close> that ends in an exception (\<open>sys.exit()\<close>
  included) removes no directory, so a failure after the directory was made leaves it;
  and the closing phase (headers, sorting, timing report, removal) removes the directory
  exactly when it ends without an exception.
\<close>

theorem failure_leaves_scratch_dir:
  "(snd (annotate env kw) = Inl e \<longrightarrow> \<not> list_ex is_RmTree (fst (annotate env kw))) \<and>
   list_ex is_RmTree (fst (finish env kw head temp_dir cs)) =
     (snd (finish env kw head temp_dir cs) = Inr ())"
proof -
  have "\<not> list_ex is_RmTree (fst (annotate env kw))" if "snd (annotate env kw) = Inl e"
  proof (cases "prepare env kw")
    case (Pair t r)
    have t: "\<not> list_ex is_RmTree t"
      using prepare_prints [of env kw] Pair by (simp add: Print_not_RmTree)
    show ?thesis
    proof (cases r)
      case (Inl e')
      with Pair t show ?thesis by (simp add: annotate_def)
    next
      case (Inr fv)
      obtain fam vp where fv: "fv = (fam, vp)" by (cases fv)
      show ?thesis
      proof (cases "set (map fst (individuals fam)) \<noteq> set (vcf_individuals vp)")
        case True
        with Pair Inr fv t show ?thesis
          using Print_not_RmTree [OF mismatch_report_prints [of fam vp]]
          by (simp add: annotate_def)
      next
        case False
        with Pair Inr fv that have "snd (run_pipeline env kw (metadata vp)) = Inl e"
          by (simp add: annotate_def)
        from run_pipeline_failure_keeps_dir [OF this] Pair Inr fv t False show ?thesis
          by (simp add: annotate_def)
      qed
    qed
  qed
  then show ?thesis by (simp add: finish_removes_iff_returns)
qed

theorem failure_leaves_scratch_dir_witness:
  "snd (annotate failing_env example_kwargs) = Inl (OtherError ''malformed variant line'') \<and>
   \<not> list_ex is_RmTree (fst (annotate failing_env example_kwargs)) \<and>
   snd (finish failing_env example_kwargs [] ''/tmp/tmpab12'' [''1'']) = Inr () \<and>
   list_ex is_RmTree (fst (finish failing_env example_kwargs [] ''/tmp/tmpab12'' [''1'']))"
proof -
  have f: "snd (annotate failing_env example_kwargs) = Inl (OtherError ''malformed variant line'')"
    by (simp add: run_defs failing_env_def example_defs insert_commute)
  have r: "snd (finish failing_env example_kwargs [] ''/tmp/tmpab12'' [''1'']) = Inr ()"
    by (simp add: finish_def print_headers_def when_io_def failing_env_def example_defs
        path_join_def)
  from failure_leaves_scratch_dir
         [of failing_env example_kwargs "OtherError ''malformed variant line''"
             "[]" "''/tmp/tmpab12''" "[''1'']"] f r
  show ?thesis by simp
qed

text \<open>A run whose variant parsing fails: the scratch directory was made and is not
  removed.\<close>

theorem failed_run_leaves_scratch_dir:
  "annotate failing_env example_kwargs =
     ([MkTemp ''/tmp/tmpab12'', StartWorker 0, StartPrinter ''/tmp/tmpab12''],
      Inl (OtherError ''malformed variant line'')) \<and>
   MkTemp ''/tmp/tmpab12'' \<in> set (fst (annotate failing_env example_kwargs)) \<and>
   RmTree ''/tmp/tmpab12'' \<notin> set (fst (annotate failing_env example_kwargs))"
  by (simp add: run_defs failing_env_def example_defs insert_commute)

subsection \<open>The family of the run\<close>

lemma prepare_uses_last_family:
  assumes "env_family_parser env (family_file kw) (family_type kw) = Inr fams" and "fams \<noteq> []"
  shows "prepare env kw = prepare (env\<lparr>env_family_parser := (\<lambda>f t. Inr [last fams])\<rparr>) kw"
  using assms by (simp add: prepare_def get_family_def popitem_def check_sources_def)

text \<open>
  C9, as the code has it. Whenever the pedigree parser yields at least one family,
  \<open>get_family\<close> returns exactly one of them, the one \<open>popitem\<close> takes from the
  \<open>families\<close> dictionary (the entry inserted last), and the whole run equals the run on a
  pedigree that holds this family alone: the other families leave no trace.
\<close>

theorem get_family_selects_last_family:
  assumes "env_family_parser env (family_file kw) (family_type kw) = Inr fams" and "fams \<noteq> []"
  shows "get_family (env_family_parser env) (family_file kw) (family_type kw) =
           Inr (snd (last fams)) \<and>
         last fams \<in> set fams \<and>
         annotate env kw = annotate (env\<lparr>env_family_parser := (\<lambda>f t. Inr [last fams])\<rparr>) kw"
  using assms prepare_uses_last_family [OF assms]
  by (simp add: get_family_def popitem_def annotate_def cong: if_cong)

theorem get_family_selects_last_family_witness:
  "get_family (env_family_parser two_families_env) ''family.ped'' ''ped'' = Inr example_family \<and>
   annotate two_families_env example_kwargs = annotate example_env example_kwargs"
proof -
  have p: "env_family_parser two_families_env (family_file example_kwargs)
             (family_type example_kwargs) = Inr [(''G'', other_family), (''F'', example_family)]"
    by (simp add: two_families_env_def)
  have n: "[(''G'', other_family), (''F'', example_family)] \<noteq> []" by simp
  have e: "two_families_env\<lparr>env_family_parser := (\<lambda>f t. Inr [(''F'', example_family)])\<rparr> =
           example_env"
    by (simp add: two_families_env_def example_env_def)
  from get_family_selects_last_family [OF p n] e show ?thesis
    by (simp add: example_kwargs_def)
qed

text \<open>A pedigree file that defines no family: \<open>popitem\<close> raises \<open>KeyError\<close>, and
  \<open>get_family\<close> returns no family.\<close>

theorem empty_pedigree_no_family:
  "get_family (env_family_parser empty_pedigree_env) ''family.ped'' ''ped'' =
     Inl (KeyError ''popitem(): dictionary is empty'') \<and>
   annotate empty_pedigree_env example_kwargs =
     ([], Inl (KeyError ''popitem(): dictionary is empty''))"
  by (simp add: run_defs empty_pedigree_env_def example_defs)

end
